theory Spec2Isabelle
  imports
    Complex_Main
    "HOL-Library.Multiset"
    "HOL-Library.Sublist"
    "HOL-Library.Char_ord"
    "HOL-Library.List_Lexorder"
begin

section \<open>MCP-Tavily dashboard: a shallow embedding of app.js\<close>

text \<open>
  The development follows \<^verbatim>\<open>app.js\<close> top to bottom: the application state, the
  built-in mock data, the API functions, the filter and sort steps of the three
  \<^verbatim>\<open>update...\<close> functions, the auto-refresh timer, \<^verbatim>\<open>formatDuration\<close> and the
  test-connection handler.

  Conventions. JavaScript strings are \<^typ>\<open>string\<close>; the string functions of the host
  whose result depends on the locale or on the Unicode tables (\<^verbatim>\<open>localeCompare\<close>,
  \<^verbatim>\<open>toLowerCase\<close>) are parameters of the functions that call them. Whole
  numbers are \<^typ>\<open>int\<close> or \<^typ>\<open>nat\<close>; numbers that may carry a fraction
  (\<^verbatim>\<open>success_rate\<close>, \<^verbatim>\<open>uptime_hours\<close>) are \<^typ>\<open>rat\<close>, which agrees with the
  sign of a difference of two finite doubles. A thrown exception or a rejected promise is
  the left injection of a sum, so that every \<^verbatim>\<open>throw\<close> of the source is a branch of the
  model and every \<^verbatim>\<open>try\<close>/\<^verbatim>\<open>catch\<close> is a case distinction on it.
\<close>

subsection \<open>Application state\<close>

text \<open>
  The settings of \<^verbatim>\<open>AppState\<close> and the handle of the refresh timer
  (\<^verbatim>\<open>null\<close> is \<open>None\<close>). The chart objects, the time of the last update and the
  cached collections are written by the refresh functions only and are left out.
\<close>

record AppState =
  apiEndpoint :: string
  refreshRate :: nat
  autoRefresh :: bool
  demoMode :: bool
  theme :: string
  currentSection :: string
  refreshInterval :: "nat option"
  serverStatus :: string

definition AppState_init :: AppState where
  "AppState_init =
     \<lparr>apiEndpoint = ''http://localhost:8000'', refreshRate = 5000, autoRefresh = True,
      demoMode = True, theme = ''auto'', currentSection = ''dashboard'',
      refreshInterval = None, serverStatus = ''offline''\<rparr>"

subsection \<open>Entities and mock data\<close>

record metrics_snapshot =
  server_status :: string
  uptime_hours :: rat
  total_connections :: int
  active_connections :: int
  total_requests :: int
  successful_requests :: int
  failed_requests :: int
  average_response_time :: int
  tools_available :: int
  redis_status :: string
  redis_latency :: int

record connection =
  conn_id :: string
  connected_at :: string
  duration_seconds :: nat
  status :: string
  tools_used :: "string list"

record tool =
  name :: string
  description :: string
  call_count :: int
  success_rate :: rat
  avg_response_time :: int

record log_entry =
  timestamp :: string
  level :: string
  message :: string

definition MockData_metrics :: metrics_snapshot where
  "MockData_metrics =
     \<lparr>server_status = ''online'', uptime_hours = 24, total_connections = 156,
      active_connections = 3, total_requests = 2843, successful_requests = 2756,
      failed_requests = 87, average_response_time = 245, tools_available = 12,
      redis_status = ''connected'', redis_latency = 2\<rparr>"

definition conn_001 :: connection where
  "conn_001 = \<lparr>conn_id = ''conn_001'', connected_at = ''2025-11-01T10:15:32Z'',
     duration_seconds = 3600, status = ''connected'',
     tools_used = [''tavily-search'', ''web-scrape'']\<rparr>"

definition conn_002 :: connection where
  "conn_002 = \<lparr>conn_id = ''conn_002'', connected_at = ''2025-11-01T10:30:15Z'',
     duration_seconds = 1800, status = ''disconnected'',
     tools_used = [''tavily-search'']\<rparr>"

definition conn_003 :: connection where
  "conn_003 = \<lparr>conn_id = ''conn_003'', connected_at = ''2025-11-01T10:45:22Z'',
     duration_seconds = 900, status = ''connected'',
     tools_used = [''web-scrape'']\<rparr>"

definition MockData_connections :: "connection list" where
  "MockData_connections = [conn_001, conn_002, conn_003]"

definition MockData_tools :: "tool list" where
  "MockData_tools =
     [\<lparr>name = ''tavily-search'', description = ''Web search using Tavily API'',
       call_count = 1203, success_rate = 992 / 10, avg_response_time = 215\<rparr>,
      \<lparr>name = ''web-scrape'', description = ''Extract content from web pages'',
       call_count = 542, success_rate = 978 / 10, avg_response_time = 312\<rparr>]"

definition log_conn_established :: log_entry where
  "log_conn_established = \<lparr>timestamp = ''2025-11-01T10:45:22Z'', level = ''INFO'',
     message = ''New connection established: conn_003''\<rparr>"

definition log_tool_execution :: log_entry where
  "log_tool_execution = \<lparr>timestamp = ''2025-11-01T10:44:15Z'', level = ''INFO'',
     message = ''Tool execution: tavily-search (215ms)''\<rparr>"

definition log_high_response :: log_entry where
  "log_high_response = \<lparr>timestamp = ''2025-11-01T10:43:01Z'', level = ''WARNING'',
     message = ''High response time detected: 1200ms''\<rparr>"

definition log_redis_ping :: log_entry where
  "log_redis_ping = \<lparr>timestamp = ''2025-11-01T10:42:33Z'', level = ''INFO'',
     message = ''Redis ping successful (2ms)''\<rparr>"

definition MockData_logs :: "log_entry list" where
  "MockData_logs =
     [log_conn_established, log_tool_execution, log_high_response, log_redis_ping]"

subsection \<open>The network, exceptions and observable effects\<close>

text \<open>
  What \<^verbatim>\<open>response.json()\<close> resolves to is any JSON value; the model keeps the four
  shapes the dashboard knows and one opaque constructor for everything else.
\<close>

datatype payload =
    MetricsData metrics_snapshot
  | ConnectionsData "connection list"
  | ToolsData "tool list"
  | LogsData "log_entry list"
  | JsonText string

datatype exn = Error string | TypeError string

fun exn_message :: "exn \<Rightarrow> string" where
  "exn_message (Error m) = m"
| "exn_message (TypeError m) = m"

text \<open>
  A response carries its \<^verbatim>\<open>ok\<close> flag and the outcome of \<^verbatim>\<open>response.json()\<close>, which
  rejects when the body cannot be read as JSON. The network maps a URL to the outcome of
  \<^verbatim>\<open>fetch(url)\<close>: a rejection (transport failure) or a response.
\<close>

datatype response = Response (ok: bool) (json: "exn + payload")

type_synonym network = "string \<Rightarrow> exn + response"

datatype effect = NetFetch string | ConsoleWarn string exn

type_synonym 'a io = "effect list \<times> (exn + 'a)"

subsection \<open>API functions\<close>

text \<open>
  The three statements of each \<^verbatim>\<open>try\<close> block: fetch, throw unless \<^verbatim>\<open>response.ok\<close>,
  return the parsed body. Every way out of the block other than the last line is an
  exception.
\<close>

definition api_request :: "network \<Rightarrow> string \<Rightarrow> payload io" where
  "api_request net url =
     ([NetFetch url],
      (case net url of
         Inl e \<Rightarrow> Inl e
       | Inr response \<Rightarrow>
           if \<not> ok response then Inl (Error ''API request failed'')
           else json response))"

definition fetchMetrics :: "AppState \<Rightarrow> network \<Rightarrow> payload io" where
  "fetchMetrics s net =
     (if demoMode s then ([], Inr (MetricsData MockData_metrics))
      else (case api_request net (apiEndpoint s @ ''/api/metrics'') of
              (tr, Inr v) \<Rightarrow> (tr, Inr v)
            | (tr, Inl err) \<Rightarrow>
                (tr @ [ConsoleWarn ''API call failed, using mock data:'' err],
                 Inr (MetricsData MockData_metrics))))"

definition fetchConnections :: "AppState \<Rightarrow> network \<Rightarrow> payload io" where
  "fetchConnections s net =
     (if demoMode s then ([], Inr (ConnectionsData MockData_connections))
      else (case api_request net (apiEndpoint s @ ''/api/connections'') of
              (tr, Inr v) \<Rightarrow> (tr, Inr v)
            | (tr, Inl err) \<Rightarrow>
                (tr @ [ConsoleWarn ''API call failed, using mock data:'' err],
                 Inr (ConnectionsData MockData_connections))))"

definition fetchTools :: "AppState \<Rightarrow> network \<Rightarrow> payload io" where
  "fetchTools s net =
     (if demoMode s then ([], Inr (ToolsData MockData_tools))
      else (case api_request net (apiEndpoint s @ ''/api/tools'') of
              (tr, Inr v) \<Rightarrow> (tr, Inr v)
            | (tr, Inl err) \<Rightarrow>
                (tr @ [ConsoleWarn ''API call failed, using mock data:'' err],
                 Inr (ToolsData MockData_tools))))"

definition fetchLogs :: "AppState \<Rightarrow> network \<Rightarrow> payload io" where
  "fetchLogs s net =
     (if demoMode s then ([], Inr (LogsData MockData_logs))
      else (case api_request net (apiEndpoint s @ ''/api/logs'') of
              (tr, Inr v) \<Rightarrow> (tr, Inr v)
            | (tr, Inl err) \<Rightarrow>
                (tr @ [ConsoleWarn ''API call failed, using mock data:'' err],
                 Inr (LogsData MockData_logs))))"

text \<open>
  A request fails when \<^verbatim>\<open>fetch\<close> rejects, when the status is not a success status, or
  when the body of a success response cannot be read.
\<close>

fun request_failed :: "exn + response \<Rightarrow> bool" where
  "request_failed (Inl e) = True"
| "request_failed (Inr (Response ok_flag body)) = (\<not> ok_flag \<or> isl body)"

text \<open>The network calls recorded in a trace of effects.\<close>

fun network_calls :: "effect list \<Rightarrow> string list" where
  "network_calls [] = []"
| "network_calls (NetFetch url # es) = url # network_calls es"
| "network_calls (ConsoleWarn m e # es) = network_calls es"

subsection \<open>Health check\<close>

record health_result =
  success :: bool
  responseTime :: "int option"
  data :: "payload option"
  error :: "string option"

text \<open>
  \<^verbatim>\<open>Date.now()\<close> is read before the fetch (\<open>t0\<close>) and after it resolves (\<open>t1\<close>); the
  second reading is never taken when the fetch rejects.
\<close>

definition checkHealth :: "AppState \<Rightarrow> network \<Rightarrow> int \<Rightarrow> int \<Rightarrow> health_result io" where
  "checkHealth s net t0 t1 =
     (let url = apiEndpoint s @ ''/health'';
          startTime = t0;
          body =
            (case net url of
               Inl e \<Rightarrow> Inl e
             | Inr response \<Rightarrow>
                 (let elapsed = t1 - startTime in
                  if ok response then
                    (case json response of
                       Inl e \<Rightarrow> Inl e
                     | Inr d \<Rightarrow>
                         Inr \<lparr>success = True, responseTime = Some elapsed,
                              data = Some d, error = None\<rparr>)
                  else
                    Inr \<lparr>success = False, responseTime = None, data = None,
                         error = Some ''Health check failed''\<rparr>))
      in ([NetFetch url],
          (case body of
             Inr r \<Rightarrow> Inr r
           | Inl err \<Rightarrow>
               Inr \<lparr>success = False, responseTime = None, data = None,
                    error = Some (exn_message err)\<rparr>)))"

subsection \<open>Arrays in the store\<close>

text \<open>
  Arrays are objects: two variables may name the same array, and \<^verbatim>\<open>sort\<close> rewrites
  an array in place. The store maps a reference to the contents of the array it names;
  \<open>next_ref\<close> is the next reference to hand out. Reading a reference that names no
  array is the \<^verbatim>\<open>TypeError\<close> of calling an array method on a value that is not an
  array.
\<close>

type_synonym ref = nat

record 'a heap =
  cells :: "ref \<Rightarrow> 'a list option"
  next_ref :: ref

definition alloc :: "'a list \<Rightarrow> 'a heap \<Rightarrow> ref \<times> 'a heap" where
  "alloc xs h =
     (next_ref h, h\<lparr>cells := (cells h)(next_ref h \<mapsto> xs), next_ref := Suc (next_ref h)\<rparr>)"

text \<open>\<^verbatim>\<open>a.filter(p)\<close>: a new array holding the elements of \<open>a\<close> that satisfy \<open>p\<close>.\<close>

definition array_filter :: "('a \<Rightarrow> bool) \<Rightarrow> ref \<Rightarrow> 'a heap \<Rightarrow> exn + ref \<times> 'a heap" where
  "array_filter p a h =
     (case cells h a of
        None \<Rightarrow> Inl (TypeError ''filter is not a function'')
      | Some xs \<Rightarrow> Inr (alloc (filter p xs) h))"

text \<open>\<^verbatim>\<open>[...a]\<close>: a new array with the elements of \<open>a\<close>.\<close>

definition array_spread :: "ref \<Rightarrow> 'a heap \<Rightarrow> exn + ref \<times> 'a heap" where
  "array_spread a h =
     (case cells h a of
        None \<Rightarrow> Inl (TypeError ''object is not iterable'')
      | Some xs \<Rightarrow> Inr (alloc xs h))"

text \<open>
  \<^verbatim>\<open>a.sort(cmp)\<close> sorts \<open>a\<close> in place and is stable (ECMAScript 2019). For a
  comparator that orders its arguments consistently the result of a stable sort is
  determined by the input, so a stable insertion sort stands for the host's algorithm:
  an element is placed before the first element it does not compare greater than.
\<close>

fun js_insert :: "('a \<Rightarrow> 'a \<Rightarrow> 'n::linordered_idom) \<Rightarrow> 'a \<Rightarrow> 'a list \<Rightarrow> 'a list" where
  "js_insert cmp x [] = [x]"
| "js_insert cmp x (y # ys) =
     (if cmp x y \<le> 0 then x # y # ys else y # js_insert cmp x ys)"

fun js_sort :: "('a \<Rightarrow> 'a \<Rightarrow> 'n::linordered_idom) \<Rightarrow> 'a list \<Rightarrow> 'a list" where
  "js_sort cmp [] = []"
| "js_sort cmp (x # xs) = js_insert cmp x (js_sort cmp xs)"

definition array_sort ::
    "('a \<Rightarrow> 'a \<Rightarrow> 'n::linordered_idom) \<Rightarrow> ref \<Rightarrow> 'a heap \<Rightarrow> exn + ref \<times> 'a heap" where
  "array_sort cmp a h =
     (case cells h a of
        None \<Rightarrow> Inl (TypeError ''sort is not a function'')
      | Some xs \<Rightarrow> Inr (a, h\<lparr>cells := (cells h)(a \<mapsto> js_sort cmp xs)\<rparr>))"

text \<open>
  A comparator is consistent when swapping its arguments flips the sign of the result
  and "not greater" is transitive.
\<close>

definition consistent_comparator :: "('a \<Rightarrow> 'a \<Rightarrow> 'n::linordered_idom) \<Rightarrow> bool" where
  "consistent_comparator cmp \<longleftrightarrow>
     (\<forall>a b. sgn (cmp a b) = - sgn (cmp b a)) \<and>
     (\<forall>a b c. cmp a b \<le> 0 \<and> cmp b c \<le> 0 \<longrightarrow> cmp a c \<le> 0)"

text \<open>Every array of the store was handed out by \<open>alloc\<close>.\<close>

definition heap_ok :: "'a heap \<Rightarrow> bool" where
  "heap_ok h \<longleftrightarrow> (\<forall>r. cells h r \<noteq> None \<longrightarrow> r < next_ref h)"

subsection \<open>Strings\<close>

text \<open>
  \<^verbatim>\<open>s.toLowerCase()\<close> is supplied by the host and follows the Unicode case
  mappings, so the functions below take it as a parameter. On a string of ASCII
  characters it moves the letters A to Z to a to z and leaves every other character
  alone; \<open>ascii_toLowerCase\<close> is that function, and \<open>lowers_ascii\<close> says of a host
  function that it agrees with it on ASCII strings. Nothing is assumed of the host
  function on other strings.
\<close>

definition ascii_lower_char :: "char \<Rightarrow> char" where
  "ascii_lower_char c =
     (if CHR ''A'' \<le> c \<and> c \<le> CHR ''Z'' then char_of (of_char c + (32::nat)) else c)"

definition ascii_toLowerCase :: "string \<Rightarrow> string" where
  "ascii_toLowerCase s = map ascii_lower_char s"



text \<open>\<^verbatim>\<open>s.includes(sub)\<close>: \<open>sub\<close> occurs in \<open>s\<close> at some position.\<close>

fun string_includes :: "string \<Rightarrow> string \<Rightarrow> bool" where
  "string_includes [] sub = (sub = [])"
| "string_includes (c # cs) sub = (prefix sub (c # cs) \<or> string_includes cs sub)"




text \<open>
  \<^verbatim>\<open>a.localeCompare(b)\<close> is supplied by the host and depends on its locale, so the
  functions below take it as a parameter. One instance, for closed examples: letters
  compare without regard to case first and a lower-case letter precedes its upper-case
  form on a tie, as in the default collation of browsers (\<^verbatim>\<open>'a' < 'B' < 'c'\<close>).
\<close>

definition caseless_collation :: "string \<Rightarrow> string \<Rightarrow> int" where
  "caseless_collation a b =
     (if ascii_toLowerCase a < ascii_toLowerCase b then - 1
      else if ascii_toLowerCase b < ascii_toLowerCase a then 1
      else if a = b then 0
      else if b < a then - 1 else 1)"

subsection \<open>Filter and sort steps of the update functions\<close>

text \<open>
  Each \<^verbatim>\<open>update...\<close> function reads its filter or sort setting from a form control,
  computes the array to show and writes markup from it. The model takes the setting as
  an argument and returns the reference of the array that is rendered, with the store
  after the call. (An empty \<^verbatim>\<open>filteredConnections\<close> is shown as one row of text; it
  is the filtered array all the same.)
\<close>

definition updateConnectionsTable ::
    "string \<Rightarrow> ref \<Rightarrow> connection heap \<Rightarrow> exn + ref \<times> connection heap" where
  "updateConnectionsTable connectionFilter connections h =
     (let filteredConnections = Inr (connections, h) in
      if connectionFilter \<noteq> ''all''
      then array_filter (\<lambda>conn. status conn = connectionFilter) connections h
      else filteredConnections)"

definition updateToolsGrid ::
    "(string \<Rightarrow> string \<Rightarrow> int) \<Rightarrow> string \<Rightarrow> ref \<Rightarrow> tool heap \<Rightarrow> exn + ref \<times> tool heap" where
  "updateToolsGrid localeCompare sortBy tools h =
     (case array_spread tools h of
        Inl e \<Rightarrow> Inl e
      | Inr (sortedTools, h1) \<Rightarrow>
          if sortBy = ''calls'' then
            array_sort (\<lambda>a b. call_count b - call_count a) sortedTools h1
          else if sortBy = ''name'' then
            array_sort (\<lambda>a b. localeCompare (name a) (name b)) sortedTools h1
          else if sortBy = ''success'' then
            array_sort (\<lambda>a b. success_rate b - success_rate a) sortedTools h1
          else Inr (sortedTools, h1))"

definition updateLogsContainer ::
    "(string \<Rightarrow> string) \<Rightarrow> string \<Rightarrow> string \<Rightarrow> ref \<Rightarrow> log_entry heap \<Rightarrow>
       exn + ref \<times> log_entry heap" where
  "updateLogsContainer toLowerCase logSearch logLevelFilter logs h =
     (let searchTerm = toLowerCase logSearch;
          levelFilter = logLevelFilter
      in case (if levelFilter \<noteq> ''all''
               then array_filter (\<lambda>log. level log = levelFilter) logs h
               else Inr (logs, h)) of
           Inl e \<Rightarrow> Inl e
         | Inr (filteredLogs, h1) \<Rightarrow>
             if searchTerm \<noteq> []
             then array_filter
                    (\<lambda>log. string_includes (toLowerCase (message log)) searchTerm) filteredLogs h1
             else Inr (filteredLogs, h1))"

text \<open>The contents of the array a call produced, when it produced one.\<close>

definition rendered :: "exn + ref \<times> 'a heap \<Rightarrow> 'a list option" where
  "rendered res = (case res of Inl e \<Rightarrow> None | Inr (r, h) \<Rightarrow> cells h r)"

subsection \<open>Auto-refresh timer\<close>

text \<open>
  The host keeps the interval timers that are live, each with its handle and its period;
  handles are positive and never reused. All timers of this program run
  \<^verbatim>\<open>refreshCurrentSection\<close>.
\<close>

record timers =
  live :: "(nat \<times> nat) list"
  next_handle :: nat

definition setInterval :: "nat \<Rightarrow> timers \<Rightarrow> nat \<times> timers" where
  "setInterval delay rt =
     (next_handle rt,
      rt\<lparr>live := live rt @ [(next_handle rt, delay)], next_handle := Suc (next_handle rt)\<rparr>)"

definition clearInterval :: "nat \<Rightarrow> timers \<Rightarrow> timers" where
  "clearInterval handle rt = rt\<lparr>live := filter (\<lambda>(i, p). i \<noteq> handle) (live rt)\<rparr>"

definition startAutoRefresh :: "AppState \<times> timers \<Rightarrow> AppState \<times> timers" where
  "startAutoRefresh st =
     (let s = fst st;
          rt = snd st;
          rt1 = (case refreshInterval s of
                   None \<Rightarrow> rt
                 | Some i \<Rightarrow> if i \<noteq> 0 then clearInterval i rt else rt)
      in if autoRefresh s
         then (let (i, rt2) = setInterval (refreshRate s) rt1
               in (s\<lparr>refreshInterval := Some i\<rparr>, rt2))
         else (s, rt1))"

definition stopAutoRefresh :: "AppState \<times> timers \<Rightarrow> AppState \<times> timers" where
  "stopAutoRefresh st =
     (let s = fst st;
          rt = snd st
      in case refreshInterval s of
           None \<Rightarrow> (s, rt)
         | Some i \<Rightarrow>
             if i \<noteq> 0 then (s\<lparr>refreshInterval := None\<rparr>, clearInterval i rt)
             else (s, rt))"

text \<open>
  How often the dispatcher runs in a window of \<open>w\<close> milliseconds that opens when the
  timers were set: a timer of period \<open>p\<close> fires at \<open>p\<close>, \<open>2p\<close>, ...
\<close>

definition dispatches_within :: "nat \<Rightarrow> timers \<Rightarrow> nat" where
  "dispatches_within w rt = sum_list (map (\<lambda>(i, p). w div p) (live rt))"

text \<open>
  The state of the scheduler is sound when every live timer is the one whose handle the
  application state holds, and handles are positive and below the next one.
\<close>

definition scheduler_ok :: "AppState \<times> timers \<Rightarrow> bool" where
  "scheduler_ok st \<longleftrightarrow>
     distinct (map fst (live (snd st))) \<and>
     0 < next_handle (snd st) \<and>
     list_all (\<lambda>(i, p). refreshInterval (fst st) = Some i \<and> 0 < i \<and> i < next_handle (snd st))
       (live (snd st)) \<and>
     (case refreshInterval (fst st) of None \<Rightarrow> True | Some i \<Rightarrow> i < next_handle (snd st))"

definition timers_init :: timers where
  "timers_init = \<lparr>live = [], next_handle = 1\<rparr>"

subsection \<open>Utility functions\<close>

text \<open>
  A whole number in a template literal is written in decimal. On whole numbers up to
  \<open>2^53 - 1\<close> the double operations \<^verbatim>\<open>Math.floor(x / k)\<close> and \<^verbatim>\<open>x % k\<close> are \<open>div\<close> and
  \<open>mod\<close>.
\<close>

definition MAX_SAFE_INTEGER :: nat where
  "MAX_SAFE_INTEGER = 9007199254740991"

fun number_to_string :: "nat \<Rightarrow> string" where
  "number_to_string n =
     (if n < 10 then [''0123456789'' ! n]
      else number_to_string (n div 10) @ [''0123456789'' ! (n mod 10)])"

definition formatDuration :: "nat \<Rightarrow> string" where
  "formatDuration seconds =
     (let hours = seconds div 3600;
          minutes = (seconds mod 3600) div 60;
          secs = seconds mod 60
      in if hours > 0 then number_to_string hours @ ''h '' @ number_to_string minutes @ ''m''
         else if minutes > 0 then
           number_to_string minutes @ ''m '' @ number_to_string secs @ ''s''
         else number_to_string secs @ ''s'')"

subsection \<open>Test-connection handler\<close>







subsection \<open>Inputs for closed examples\<close>

definition live_mode :: AppState where
  "live_mode = AppState_init\<lparr>demoMode := False\<rparr>"

definition net_unreachable :: network where
  "net_unreachable url = Inl (TypeError ''Failed to fetch'')"

definition net_server_error :: network where
  "net_server_error url = Inr (Response False (Inr (JsonText ''Internal Server Error'')))"

definition net_healthy :: network where
  "net_healthy url = Inr (Response True (Inr (JsonText ''healthy'')))"

text \<open>A success status with a body that is not JSON: \<^verbatim>\<open>response.json()\<close> rejects.\<close>

definition net_unreadable_body :: network where
  "net_unreadable_body url =
     Inr (Response True (Inl (Error ''Unexpected token < in JSON at position 0'')))"

definition connections_store :: "connection heap" where
  "connections_store = \<lparr>cells = [0 \<mapsto> MockData_connections], next_ref = 1\<rparr>"

definition logs_store :: "log_entry heap" where
  "logs_store = \<lparr>cells = [0 \<mapsto> MockData_logs], next_ref = 1\<rparr>"

definition tool_b :: tool where
  "tool_b = \<lparr>name = ''b'', description = [], call_count = 5, success_rate = 0,
     avg_response_time = 0\<rparr>"

definition tool_a :: tool where
  "tool_a = \<lparr>name = ''a'', description = [], call_count = 10, success_rate = 0,
     avg_response_time = 0\<rparr>"

definition tool_upper_B :: tool where
  "tool_upper_B = \<lparr>name = ''B'', description = [], call_count = 5, success_rate = 0,
     avg_response_time = 0\<rparr>"

definition tools_store :: "tool list \<Rightarrow> tool heap" where
  "tools_store ts = \<lparr>cells = [0 \<mapsto> ts], next_ref = 1\<rparr>"

section \<open>Properties\<close>

subsection \<open>Fallback on failure\<close>

lemma api_request_failed:
  "request_failed (net url) \<Longrightarrow> \<exists>e. api_request net url = ([NetFetch url], Inl e)"
  by (cases "net url" rule: request_failed.cases)
     (auto simp: api_request_def isl_def)

lemma fetch_never_throws:
  "\<not> isl (snd (fetchMetrics s net))" "\<not> isl (snd (fetchConnections s net))"
  "\<not> isl (snd (fetchTools s net))" "\<not> isl (snd (fetchLogs s net))"
  by (auto simp: fetchMetrics_def fetchConnections_def fetchTools_def fetchLogs_def
           split: prod.splits sum.splits)

text \<open>
  Claim C1. For each of the four resources, when demo mode is off and the request fails
  (the fetch rejects, the status is not a success status, or the body of a success
  response cannot be read), the fetch function returns the mock value of that resource
  as a normal result. Whatever the network does, the result is never an exception.
\<close>

theorem fetch_falls_back_to_mock:
  assumes "\<not> demoMode s"
  shows "(request_failed (net (apiEndpoint s @ ''/api/metrics'')) \<longrightarrow>
            snd (fetchMetrics s net) = Inr (MetricsData MockData_metrics)) \<and>
         (request_failed (net (apiEndpoint s @ ''/api/connections'')) \<longrightarrow>
            snd (fetchConnections s net) = Inr (ConnectionsData MockData_connections)) \<and>
         (request_failed (net (apiEndpoint s @ ''/api/tools'')) \<longrightarrow>
            snd (fetchTools s net) = Inr (ToolsData MockData_tools)) \<and>
         (request_failed (net (apiEndpoint s @ ''/api/logs'')) \<longrightarrow>
            snd (fetchLogs s net) = Inr (LogsData MockData_logs)) \<and>
         \<not> isl (snd (fetchMetrics s net)) \<and> \<not> isl (snd (fetchConnections s net)) \<and>
         \<not> isl (snd (fetchTools s net)) \<and> \<not> isl (snd (fetchLogs s net))"
proof -
  have "request_failed (net (apiEndpoint s @ ''/api/metrics'')) \<Longrightarrow>
          snd (fetchMetrics s net) = Inr (MetricsData MockData_metrics)"
    using assms by (auto simp: fetchMetrics_def dest!: api_request_failed)
  moreover have "request_failed (net (apiEndpoint s @ ''/api/connections'')) \<Longrightarrow>
          snd (fetchConnections s net) = Inr (ConnectionsData MockData_connections)"
    using assms by (auto simp: fetchConnections_def dest!: api_request_failed)
  moreover have "request_failed (net (apiEndpoint s @ ''/api/tools'')) \<Longrightarrow>
          snd (fetchTools s net) = Inr (ToolsData MockData_tools)"
    using assms by (auto simp: fetchTools_def dest!: api_request_failed)
  moreover have "request_failed (net (apiEndpoint s @ ''/api/logs'')) \<Longrightarrow>
          snd (fetchLogs s net) = Inr (LogsData MockData_logs)"
    using assms by (auto simp: fetchLogs_def dest!: api_request_failed)
  ultimately show ?thesis
    using fetch_never_throws [of s net] by blast
qed

text \<open>
  The theorem at work: with demo mode off, an unreachable server and a server that
  answers with an error status both end in the mock values.
\<close>

theorem fetch_falls_back_to_mock_witness:
  "\<not> demoMode live_mode \<and>
   request_failed (net_unreachable (apiEndpoint live_mode @ ''/api/metrics'')) \<and>
   request_failed (net_unreachable (apiEndpoint live_mode @ ''/api/connections'')) \<and>
   request_failed (net_unreachable (apiEndpoint live_mode @ ''/api/tools'')) \<and>
   request_failed (net_unreachable (apiEndpoint live_mode @ ''/api/logs'')) \<and>
   snd (fetchMetrics live_mode net_unreachable) = Inr (MetricsData MockData_metrics) \<and>
   snd (fetchConnections live_mode net_unreachable) =
     Inr (ConnectionsData MockData_connections) \<and>
   snd (fetchTools live_mode net_unreachable) = Inr (ToolsData MockData_tools) \<and>
   snd (fetchLogs live_mode net_unreachable) = Inr (LogsData MockData_logs)"
proof -
  have off: "\<not> demoMode live_mode"
    by (simp add: live_mode_def AppState_init_def)
  have failed: "request_failed (net_unreachable url)" for url
    by (simp add: net_unreachable_def)
  show ?thesis
    using fetch_falls_back_to_mock [OF off, of net_unreachable] off failed by blast
qed

subsection \<open>Demo mode\<close>

text \<open>
  Claim C2. For each of the four resources, when demo mode is on the fetch function
  returns the mock value of that resource as a normal result and its trace of effects is
  empty, so that no network call is made; the outcome is the same for every network and
  for every other setting of the state.
\<close>

theorem fetch_in_demo_mode:
  assumes "demoMode s"
  shows "fetchMetrics s net = ([], Inr (MetricsData MockData_metrics)) \<and>
         fetchConnections s net = ([], Inr (ConnectionsData MockData_connections)) \<and>
         fetchTools s net = ([], Inr (ToolsData MockData_tools)) \<and>
         fetchLogs s net = ([], Inr (LogsData MockData_logs)) \<and>
         network_calls (fst (fetchMetrics s net)) = [] \<and>
         network_calls (fst (fetchConnections s net)) = [] \<and>
         network_calls (fst (fetchTools s net)) = [] \<and>
         network_calls (fst (fetchLogs s net)) = [] \<and>
         (\<forall>s' net'. demoMode s' \<longrightarrow>
            fetchMetrics s' net' = fetchMetrics s net \<and>
            fetchConnections s' net' = fetchConnections s net \<and>
            fetchTools s' net' = fetchTools s net \<and>
            fetchLogs s' net' = fetchLogs s net)"
  using assms
  by (simp add: fetchMetrics_def fetchConnections_def fetchTools_def fetchLogs_def)

theorem fetch_in_demo_mode_witness:
  "demoMode AppState_init \<and>
   fetchMetrics AppState_init net_unreachable = ([], Inr (MetricsData MockData_metrics)) \<and>
   fetchLogs AppState_init net_healthy = ([], Inr (LogsData MockData_logs)) \<and>
   fetchTools (AppState_init\<lparr>apiEndpoint := ''http://example.org''\<rparr>) net_healthy =
     fetchTools AppState_init net_unreachable"
proof -
  have on: "demoMode AppState_init"
    by (simp add: AppState_init_def)
  have on': "demoMode (AppState_init\<lparr>apiEndpoint := ''http://example.org''\<rparr>)"
    by (simp add: AppState_init_def)
  show ?thesis
    using fetch_in_demo_mode [OF on, of net_unreachable]
          fetch_in_demo_mode [OF on, of net_healthy]
          fetch_in_demo_mode [OF on', of net_healthy] on
    by simp
qed

subsection \<open>Health check\<close>

text \<open>
  Claim C3, as the code has it. The health check always returns a structured result,
  never an exception. When the fetch resolves with a success status and a body that can
  be read as JSON, the result has \<open>success = True\<close>, the time between the two clock
  readings and the body of the response. When the status is not a success status, or the
  fetch rejects, or the body of a success response cannot be read, the result has
  \<open>success = False\<close> and an error message and nothing else. The data of a result is
  always the body the network returned for the health URL, whatever the demo-mode flag
  says: mock data never enters.
\<close>

theorem checkHealth_structured_result:
  "\<exists>r. snd (checkHealth s net t0 t1) = Inr r \<and>
       network_calls (fst (checkHealth s net t0 t1)) = [apiEndpoint s @ ''/health''] \<and>
       (case net (apiEndpoint s @ ''/health'') of
          Inr (Response True (Inr d)) \<Rightarrow>
            r = \<lparr>success = True, responseTime = Some (t1 - t0), data = Some d, error = None\<rparr>
        | Inr (Response True (Inl e)) \<Rightarrow>
            r = \<lparr>success = False, responseTime = None, data = None,
                 error = Some (exn_message e)\<rparr>
        | Inr (Response False body) \<Rightarrow>
            r = \<lparr>success = False, responseTime = None, data = None,
                 error = Some ''Health check failed''\<rparr>
        | Inl e \<Rightarrow>
            r = \<lparr>success = False, responseTime = None, data = None,
                 error = Some (exn_message e)\<rparr>) \<and>
       (success r \<longleftrightarrow> \<not> request_failed (net (apiEndpoint s @ ''/health''))) \<and>
       (\<forall>d. data r = Some d \<longrightarrow>
            net (apiEndpoint s @ ''/health'') = Inr (Response True (Inr d))) \<and>
       checkHealth (s\<lparr>demoMode := True\<rparr>) net t0 t1 = checkHealth s net t0 t1"
  by (auto simp: checkHealth_def Let_def split: sum.splits response.splits bool.splits)

theorem checkHealth_structured_result_witness:
  "snd (checkHealth AppState_init net_healthy 1000 1042) =
     Inr \<lparr>success = True, responseTime = Some 42, data = Some (JsonText ''healthy''),
          error = None\<rparr> \<and>
   snd (checkHealth AppState_init net_server_error 1000 1042) =
     Inr \<lparr>success = False, responseTime = None, data = None,
          error = Some ''Health check failed''\<rparr> \<and>
   snd (checkHealth AppState_init net_unreachable 1000 1042) =
     Inr \<lparr>success = False, responseTime = None, data = None,
          error = Some ''Failed to fetch''\<rparr>"
  using checkHealth_structured_result [of AppState_init net_healthy 1000 1042]
        checkHealth_structured_result [of AppState_init net_server_error 1000 1042]
        checkHealth_structured_result [of AppState_init net_unreachable 1000 1042]
  by (auto simp: net_healthy_def net_server_error_def net_unreachable_def)

text \<open>
  Claim C3 as stated promises \<open>success = True\<close> on every successful response. A
  response with a success status whose body is not JSON makes \<^verbatim>\<open>response.json()\<close>
  reject inside the \<^verbatim>\<open>try\<close> block, and the health check reports a failure.
\<close>

theorem checkHealth_success_status_unreadable_body:
  "net_unreadable_body (apiEndpoint AppState_init @ ''/health'') =
     Inr (Response True (Inl (Error ''Unexpected token < in JSON at position 0''))) \<and>
   snd (checkHealth AppState_init net_unreadable_body 1000 1042) =
     Inr \<lparr>success = False, responseTime = None, data = None,
          error = Some ''Unexpected token < in JSON at position 0''\<rparr>"
  by (simp add: checkHealth_def net_unreadable_body_def Let_def)

subsection \<open>Auto-refresh scheduler\<close>

lemma clearInterval_own_handle:
  assumes "scheduler_ok (s, rt)" and "refreshInterval s = Some i" and "i \<noteq> 0"
  shows "live (clearInterval i rt) = []"
  using assms
  by (auto simp: scheduler_ok_def clearInterval_def list_all_iff filter_empty_conv)

lemma no_handle_no_timer:
  assumes "scheduler_ok (s, rt)"
    and "refreshInterval s = None \<or> refreshInterval s = Some 0"
  shows "live rt = []"
  using assms by (cases "live rt") (auto simp: scheduler_ok_def)

lemma startAutoRefresh_enabled:
  assumes "scheduler_ok st" and "autoRefresh (fst st)"
  shows "startAutoRefresh st =
           (fst st\<lparr>refreshInterval := Some (next_handle (snd st))\<rparr>,
            \<lparr>live = [(next_handle (snd st), refreshRate (fst st))],
             next_handle = Suc (next_handle (snd st))\<rparr>)"
proof (cases st)
  case (Pair s rt)
  show ?thesis
  proof (cases "refreshInterval s")
    case None
    with Pair assms no_handle_no_timer [of s rt] show ?thesis
      by (simp add: startAutoRefresh_def setInterval_def Let_def)
  next
    case (Some i)
    show ?thesis
    proof (cases "i = 0")
      case True
      with Some Pair assms no_handle_no_timer [of s rt] show ?thesis
        by (simp add: startAutoRefresh_def setInterval_def Let_def)
    next
      case False
      with Some Pair assms clearInterval_own_handle [of s rt i] show ?thesis
        by (simp add: startAutoRefresh_def setInterval_def Let_def clearInterval_def)
    qed
  qed
qed

lemma startAutoRefresh_disabled:
  assumes "scheduler_ok st" and "\<not> autoRefresh (fst st)"
  shows "startAutoRefresh st = (fst st, snd st\<lparr>live := []\<rparr>)"
proof (cases st)
  case (Pair s rt)
  show ?thesis
  proof (cases "refreshInterval s")
    case None
    with Pair assms no_handle_no_timer [of s rt] show ?thesis
      by (simp add: startAutoRefresh_def Let_def)
  next
    case (Some i)
    show ?thesis
    proof (cases "i = 0")
      case True
      with Some Pair assms no_handle_no_timer [of s rt] show ?thesis
        by (simp add: startAutoRefresh_def Let_def)
    next
      case False
      with Some Pair assms clearInterval_own_handle [of s rt i] show ?thesis
        by (simp add: startAutoRefresh_def Let_def clearInterval_def)
    qed
  qed
qed

lemma startAutoRefresh_keeps_ok:
  assumes "scheduler_ok st"
  shows "scheduler_ok (startAutoRefresh st)"
proof (cases "autoRefresh (fst st)")
  case True
  then show ?thesis
    using assms by (simp add: startAutoRefresh_enabled) (simp add: scheduler_ok_def)
next
  case False
  then show ?thesis
    using assms
    by (simp add: startAutoRefresh_disabled)
       (auto simp: scheduler_ok_def split: option.splits)
qed

lemma stopAutoRefresh_no_timer:
  assumes "scheduler_ok st"
  shows "live (snd (stopAutoRefresh st)) = []"
proof (cases st)
  case (Pair s rt)
  show ?thesis
  proof (cases "refreshInterval s")
    case None
    with Pair assms no_handle_no_timer [of s rt] show ?thesis
      by (simp add: stopAutoRefresh_def Let_def)
  next
    case (Some i)
    show ?thesis
    proof (cases "i = 0")
      case True
      with Some Pair assms no_handle_no_timer [of s rt] show ?thesis
        by (simp add: stopAutoRefresh_def Let_def)
    next
      case False
      with Some Pair assms clearInterval_own_handle [of s rt i] show ?thesis
        by (simp add: stopAutoRefresh_def Let_def)
    qed
  qed
qed

lemma stopAutoRefresh_keeps_ok:
  assumes "scheduler_ok st"
  shows "scheduler_ok (stopAutoRefresh st)"
  using assms stopAutoRefresh_no_timer [of st]
  by (cases st)
     (auto simp: scheduler_ok_def stopAutoRefresh_def Let_def clearInterval_def
           split: option.splits)

lemma stopAutoRefresh_twice:
  "stopAutoRefresh (stopAutoRefresh st) = stopAutoRefresh st"
  by (cases st) (auto simp: stopAutoRefresh_def Let_def split: option.splits)

lemma scheduler_ok_init: "scheduler_ok (AppState_init, timers_init)"
  by (simp add: scheduler_ok_def AppState_init_def timers_init_def)

text \<open>
  Claim C4. From a sound scheduler state (every live timer is the one whose handle the
  application state holds; the state at start-up is sound), \<^verbatim>\<open>startAutoRefresh\<close>
  and \<^verbatim>\<open>stopAutoRefresh\<close> lead to a sound state again, and at most one timer is live
  afterwards. With auto-refresh enabled, start leaves exactly the timer it has just set,
  any earlier one being cancelled, so that after two starts in a row one timer is live
  and the dispatcher runs once in a window of one refresh period. With auto-refresh
  disabled, start leaves no timer live. Stop leaves no timer live, and a second stop
  changes nothing.
\<close>

theorem auto_refresh_single_timer:
  assumes "scheduler_ok st"
  shows "scheduler_ok (startAutoRefresh st) \<and>
         scheduler_ok (stopAutoRefresh st) \<and>
         length (live (snd (startAutoRefresh st))) \<le> 1 \<and>
         (autoRefresh (fst st) \<longrightarrow>
            live (snd (startAutoRefresh st)) =
              [(next_handle (snd st), refreshRate (fst st))] \<and>
            live (snd (startAutoRefresh (startAutoRefresh st))) =
              [(Suc (next_handle (snd st)), refreshRate (fst st))] \<and>
            (0 < refreshRate (fst st) \<longrightarrow>
               dispatches_within (refreshRate (fst st))
                 (snd (startAutoRefresh (startAutoRefresh st))) = 1)) \<and>
         (\<not> autoRefresh (fst st) \<longrightarrow> live (snd (startAutoRefresh st)) = []) \<and>
         live (snd (stopAutoRefresh st)) = [] \<and>
         stopAutoRefresh (stopAutoRefresh st) = stopAutoRefresh st"
proof -
  have ok1: "scheduler_ok (startAutoRefresh st)"
    using assms by (rule startAutoRefresh_keeps_ok)
  have on: "live (snd (startAutoRefresh st)) =
              [(next_handle (snd st), refreshRate (fst st))] \<and>
            live (snd (startAutoRefresh (startAutoRefresh st))) =
              [(Suc (next_handle (snd st)), refreshRate (fst st))]"
    if "autoRefresh (fst st)"
  proof -
    have first: "startAutoRefresh st =
        (fst st\<lparr>refreshInterval := Some (next_handle (snd st))\<rparr>,
         \<lparr>live = [(next_handle (snd st), refreshRate (fst st))],
          next_handle = Suc (next_handle (snd st))\<rparr>)"
      using assms that by (rule startAutoRefresh_enabled)
    have "autoRefresh (fst (startAutoRefresh st))"
      using that by (simp add: first)
    with ok1 show ?thesis
      by (simp add: startAutoRefresh_enabled) (simp add: first)
  qed
  have off: "live (snd (startAutoRefresh st)) = []" if "\<not> autoRefresh (fst st)"
    using assms that by (simp add: startAutoRefresh_disabled)
  have "length (live (snd (startAutoRefresh st))) \<le> 1"
    using on off by (cases "autoRefresh (fst st)") simp_all
  moreover have "dispatches_within (refreshRate (fst st))
                   (snd (startAutoRefresh (startAutoRefresh st))) = 1"
    if "autoRefresh (fst st)" and "0 < refreshRate (fst st)"
    using on that by (simp add: dispatches_within_def)
  ultimately show ?thesis
    using ok1 on off assms stopAutoRefresh_keeps_ok [of st]
          stopAutoRefresh_no_timer [of st] stopAutoRefresh_twice [of st]
    by blast
qed

text \<open>
  The theorem at start-up (auto-refresh on, a period of 5000 ms): two starts in a row
  leave the single timer of the second start.
\<close>

theorem auto_refresh_single_timer_witness:
  "scheduler_ok (AppState_init, timers_init) \<and>
   live (snd (startAutoRefresh (startAutoRefresh (AppState_init, timers_init)))) =
     [(2, 5000)] \<and>
   dispatches_within 5000
     (snd (startAutoRefresh (startAutoRefresh (AppState_init, timers_init)))) = 1 \<and>
   live (snd (stopAutoRefresh (AppState_init, timers_init))) = []"
  using auto_refresh_single_timer [OF scheduler_ok_init] scheduler_ok_init
  by (simp add: AppState_init_def timers_init_def)

subsection \<open>Formatting a duration\<close>

lemma formatDuration_by_range:
  "formatDuration seconds =
     (if 3600 \<le> seconds then
        number_to_string (seconds div 3600) @ ''h '' @
        number_to_string (seconds mod 3600 div 60) @ ''m''
      else if 60 \<le> seconds then
        number_to_string (seconds div 60) @ ''m '' @
        number_to_string (seconds mod 60) @ ''s''
      else number_to_string seconds @ ''s'')"
  by (auto simp: formatDuration_def Let_def div_greater_zero_iff
           simp del: number_to_string.simps)

text \<open>
  Claim C9. \<^verbatim>\<open>formatDuration\<close> maps 3600 to "1h 0m", 125 to "2m 5s" and 45 to "45s";
  at the boundaries, 0 gives "0s", 59 gives "59s", 60 gives "1m 0s", 3599 gives
  "59m 59s" and 7200 gives "2h 0m". For every whole number of seconds up to
  \<open>2^53 - 1\<close>: from 3600 on the result is the hours and the minutes, from 60 to 3599 the
  minutes and the seconds, below 60 the seconds alone, each number in decimal.
\<close>

theorem formatDuration_examples_and_ranges:
  "formatDuration 3600 = ''1h 0m'' \<and>
   formatDuration 125 = ''2m 5s'' \<and>
   formatDuration 45 = ''45s'' \<and>
   formatDuration 0 = ''0s'' \<and>
   formatDuration 59 = ''59s'' \<and>
   formatDuration 60 = ''1m 0s'' \<and>
   formatDuration 3599 = ''59m 59s'' \<and>
   formatDuration 7200 = ''2h 0m'' \<and>
   (\<forall>seconds \<le> MAX_SAFE_INTEGER.
      formatDuration seconds =
        (if 3600 \<le> seconds then
           number_to_string (seconds div 3600) @ ''h '' @
           number_to_string (seconds mod 3600 div 60) @ ''m''
         else if 60 \<le> seconds then
           number_to_string (seconds div 60) @ ''m '' @
           number_to_string (seconds mod 60) @ ''s''
         else number_to_string seconds @ ''s''))"
proof -
  have "formatDuration 3600 = ''1h 0m''" by (simp add: formatDuration_def)
  moreover have "formatDuration 125 = ''2m 5s''" by (simp add: formatDuration_def)
  moreover have "formatDuration 45 = ''45s''" by (simp add: formatDuration_def)
  moreover have "formatDuration 0 = ''0s''" by (simp add: formatDuration_def)
  moreover have "formatDuration 59 = ''59s''" by (simp add: formatDuration_def)
  moreover have "formatDuration 60 = ''1m 0s''" by (simp add: formatDuration_def)
  moreover have "formatDuration 3599 = ''59m 59s''" by (simp add: formatDuration_def)
  moreover have "formatDuration 7200 = ''2h 0m''" by (simp add: formatDuration_def)
  ultimately show ?thesis
    using formatDuration_by_range by blast
qed

text \<open>The general part at 7325 seconds: two hours, two minutes and five seconds.\<close>

theorem formatDuration_examples_and_ranges_witness:
  "7325 \<le> MAX_SAFE_INTEGER \<and> formatDuration 7325 = ''2h 2m''"
proof -
  have small: "7325 \<le> MAX_SAFE_INTEGER"
    by (simp add: MAX_SAFE_INTEGER_def)
  with formatDuration_examples_and_ranges
  have "formatDuration 7325 =
          number_to_string (7325 div 3600) @ ''h '' @
          number_to_string (7325 mod 3600 div 60) @ ''m''"
    by simp
  with small show ?thesis by simp
qed

subsection \<open>Testing a candidate endpoint\<close>






subsection \<open>Arrays: what the primitives return\<close>

lemma array_filter_result:
  assumes "cells h a = Some xs"
  shows "array_filter p a h =
           Inr (next_ref h,
                h\<lparr>cells := (cells h)(next_ref h \<mapsto> filter p xs),
                  next_ref := Suc (next_ref h)\<rparr>)"
  using assms by (simp add: array_filter_def alloc_def)

lemma array_spread_result:
  assumes "cells h a = Some xs"
  shows "array_spread a h =
           Inr (next_ref h,
                h\<lparr>cells := (cells h)(next_ref h \<mapsto> xs), next_ref := Suc (next_ref h)\<rparr>)"
  using assms by (simp add: array_spread_def alloc_def)

lemma array_sort_result:
  assumes "cells h a = Some xs"
  shows "array_sort cmp a h = Inr (a, h\<lparr>cells := (cells h)(a \<mapsto> js_sort cmp xs)\<rparr>)"
  using assms by (simp add: array_sort_def)

lemma heap_ok_connections_store: "heap_ok connections_store"
  by (simp add: heap_ok_def connections_store_def)

lemma heap_ok_logs_store: "heap_ok logs_store"
  by (simp add: heap_ok_def logs_store_def)

lemma heap_ok_tools_store: "heap_ok (tools_store ts)"
  by (simp add: heap_ok_def tools_store_def)

subsection \<open>Connections filter\<close>

lemma updateConnectionsTable_rendered:
  assumes "cells h connections = Some conns"
  shows "rendered (updateConnectionsTable flt connections h) =
           Some (filter (\<lambda>conn. flt = ''all'' \<or> status conn = flt) conns)"
  using assms
  by (simp add: updateConnectionsTable_def rendered_def array_filter_result)

text \<open>
  Claim C7. The array that \<^verbatim>\<open>updateConnectionsTable\<close> renders holds exactly the
  connections whose status equals the selected filter, or all connections when the
  filter is "all", in their original order. Over the three sample connections the
  filter "connected" gives \<open>conn_001\<close> and \<open>conn_003\<close>, in that order.
\<close>

theorem connections_filter_by_status:
  "(\<forall>h connections conns flt.
      cells h connections = Some conns \<longrightarrow>
        (\<exists>shown. rendered (updateConnectionsTable flt connections h) = Some shown \<and>
           shown = filter (\<lambda>conn. flt = ''all'' \<or> status conn = flt) conns \<and>
           set shown = {conn \<in> set conns. flt = ''all'' \<or> status conn = flt} \<and>
           subseq shown conns \<and>
           (flt = ''all'' \<longrightarrow> shown = conns))) \<and>
   rendered (updateConnectionsTable ''connected'' 0 connections_store) =
     Some [conn_001, conn_003] \<and>
   map conn_id [conn_001, conn_003] = [''conn_001'', ''conn_003'']"
proof -
  have "rendered (updateConnectionsTable ''connected'' 0 connections_store) =
          Some [conn_001, conn_003]"
    by (simp add: updateConnectionsTable_rendered [of _ _ MockData_connections]
          connections_store_def MockData_connections_def
          conn_001_def conn_002_def conn_003_def)
  moreover have "map conn_id [conn_001, conn_003] = [''conn_001'', ''conn_003'']"
    by (simp add: conn_001_def conn_003_def)
  ultimately show ?thesis
    by (auto simp: updateConnectionsTable_rendered)
qed

text \<open>
  The general part over the sample connections: "disconnected" leaves \<open>conn_002\<close>,
  and "all" leaves the three of them.
\<close>

theorem connections_filter_by_status_witness:
  "cells connections_store 0 = Some MockData_connections \<and>
   rendered (updateConnectionsTable ''disconnected'' 0 connections_store) =
     Some [conn_002] \<and>
   rendered (updateConnectionsTable ''all'' 0 connections_store) =
     Some [conn_001, conn_002, conn_003]"
proof -
  have stored: "cells connections_store 0 = Some MockData_connections"
    by (simp add: connections_store_def)
  from connections_filter_by_status stored
  have "rendered (updateConnectionsTable flt 0 connections_store) =
          Some (filter (\<lambda>conn. flt = ''all'' \<or> status conn = flt) MockData_connections)"
    for flt
    by blast
  then show ?thesis
    using stored
    by (simp add: MockData_connections_def conn_001_def conn_002_def conn_003_def)
qed

subsection \<open>Logs filter\<close>

















subsection \<open>The stable sort\<close>

lemma mset_js_insert: "mset (js_insert cmp x xs) = add_mset x (mset xs)"
  by (induction xs) simp_all

lemma mset_js_sort: "mset (js_sort cmp xs) = mset xs"
  by (induction xs) (simp_all add: mset_js_insert)

lemma set_js_insert: "set (js_insert cmp x xs) = insert x (set xs)"
  using mset_js_insert [of cmp x xs] by (metis set_mset_add_mset_insert set_mset_mset)

lemma consistent_comparator_total:
  assumes "consistent_comparator cmp"
  shows "cmp a b \<le> 0 \<or> cmp b a \<le> 0"
proof (rule ccontr)
  assume "\<not> (cmp a b \<le> 0 \<or> cmp b a \<le> 0)"
  then have "sgn (cmp a b) = 1" and "sgn (cmp b a) = 1"
    by simp_all
  moreover have "sgn (cmp a b) = - sgn (cmp b a)"
    using assms unfolding consistent_comparator_def by blast
  ultimately show False
    by simp
qed

lemma consistent_comparator_trans:
  assumes "consistent_comparator cmp" and "cmp a b \<le> 0" and "cmp b c \<le> 0"
  shows "cmp a c \<le> 0"
  using assms unfolding consistent_comparator_def by blast

lemma consistent_comparator_flip:
  assumes "consistent_comparator cmp" and "cmp a b = 0"
  shows "cmp b a = 0"
proof -
  have "sgn (cmp b a) = - sgn (cmp a b)"
    using assms(1) unfolding consistent_comparator_def by blast
  with assms(2) show ?thesis
    by (simp add: sgn_if split: if_splits)
qed

lemma sorted_js_insert:
  assumes "consistent_comparator cmp"
    and "sorted_wrt (\<lambda>a b. cmp a b \<le> 0) xs"
  shows "sorted_wrt (\<lambda>a b. cmp a b \<le> 0) (js_insert cmp x xs)"
  using assms(2)
proof (induction xs)
  case Nil
  then show ?case by simp
next
  case (Cons y ys)
  show ?case
  proof (cases "cmp x y \<le> 0")
    case True
    have "cmp x z \<le> 0" if "z \<in> set ys" for z
      using Cons.prems that True consistent_comparator_trans [OF assms(1), of x y z]
      by simp
    with True Cons.prems show ?thesis
      by simp
  next
    case False
    then have "cmp y x \<le> 0"
      using consistent_comparator_total [OF assms(1), of x y] by simp
    with False Cons show ?thesis
      by (auto simp: set_js_insert)
  qed
qed

lemma sorted_js_sort:
  assumes "consistent_comparator cmp"
  shows "sorted_wrt (\<lambda>a b. cmp a b \<le> 0) (js_sort cmp xs)"
  by (induction xs) (simp_all add: sorted_js_insert [OF assms])

text \<open>
  Stability: the elements picked out by a predicate whose members never compare greater
  than one another keep their order.
\<close>

lemma filter_js_insert:
  assumes "\<And>y. P x \<Longrightarrow> P y \<Longrightarrow> cmp x y \<le> 0"
  shows "filter P (js_insert cmp x ys) = (if P x then x # filter P ys else filter P ys)"
  using assms by (induction ys) auto

lemma filter_js_sort:
  assumes "\<And>x y. P x \<Longrightarrow> P y \<Longrightarrow> cmp x y \<le> 0"
  shows "filter P (js_sort cmp xs) = filter P xs"
proof (induction xs)
  case Nil
  then show ?case by simp
next
  case (Cons x xs)
  have "filter P (js_insert cmp x (js_sort cmp xs)) =
          (if P x then x # filter P (js_sort cmp xs) else filter P (js_sort cmp xs))"
    using assms by (intro filter_js_insert) blast
  with Cons show ?case
    by simp
qed

subsection \<open>The three comparators of the tools sort\<close>

lemma consistent_by_calls:
  "consistent_comparator (\<lambda>a b. call_count b - call_count a)"
  by (auto simp: consistent_comparator_def sgn_if)

lemma consistent_by_success:
  "consistent_comparator (\<lambda>a b. success_rate b - success_rate a)"
  by (auto simp: consistent_comparator_def sgn_if)

lemma consistent_by_name:
  assumes "consistent_comparator localeCompare"
  shows "consistent_comparator (\<lambda>a b. localeCompare (name a) (name b))"
  using assms unfolding consistent_comparator_def by blast

lemma equivalent_names:
  assumes "consistent_comparator localeCompare"
    and "localeCompare n a = 0" and "localeCompare n b = 0"
  shows "localeCompare a b \<le> 0"
proof -
  have "localeCompare a n \<le> 0"
    using consistent_comparator_flip [OF assms(1,2)] by simp
  then show ?thesis
    using consistent_comparator_trans [OF assms(1), of a n b] assms(3) by simp
qed

lemma updateToolsGrid_rendered:
  assumes "cells h tools = Some ts"
  shows "rendered (updateToolsGrid localeCompare sortBy tools h) =
           Some (if sortBy = ''calls'' then js_sort (\<lambda>a b. call_count b - call_count a) ts
                 else if sortBy = ''name'' then
                   js_sort (\<lambda>a b. localeCompare (name a) (name b)) ts
                 else if sortBy = ''success'' then
                   js_sort (\<lambda>a b. success_rate b - success_rate a) ts
                 else ts)"
  using assms
  by (simp add: updateToolsGrid_def rendered_def array_spread_result array_sort_result)

lemma caseless_collation_le:
  "caseless_collation a b \<le> 0 \<longleftrightarrow>
     ascii_toLowerCase a < ascii_toLowerCase b \<or>
     (ascii_toLowerCase a = ascii_toLowerCase b \<and> b \<le> a)"
  by (auto simp: caseless_collation_def)

lemma consistent_caseless_collation: "consistent_comparator caseless_collation"
proof -
  have "sgn (caseless_collation a b) = - sgn (caseless_collation b a)" for a b
    by (auto simp: caseless_collation_def)
  moreover have "caseless_collation a c \<le> 0"
    if "caseless_collation a b \<le> 0" and "caseless_collation b c \<le> 0" for a b c
    using that unfolding caseless_collation_le by auto
  ultimately show ?thesis
    unfolding consistent_comparator_def by blast
qed

subsection \<open>Tools sort\<close>

text \<open>
  Claim C5, as the code has it. The array that \<^verbatim>\<open>updateToolsGrid\<close> renders is a
  rearrangement of the tools it was given, for each of the three sort keys. By "calls"
  the call counts never increase along it; by "success" the success rates never
  increase; by "name" no tool compares greater than a later one under the host's
  \<^verbatim>\<open>localeCompare\<close>, for every host whose comparison is consistent. In each case tools
  that compare equal keep their original order. Two tools named "b" with 5 calls and
  "a" with 10 calls, in that order, come out by "calls" as "a" then "b".
\<close>

theorem tools_sort_stable_by_key:
  assumes "cells h tools = Some ts"
    and "consistent_comparator localeCompare"
  shows "(\<exists>shown. rendered (updateToolsGrid localeCompare ''calls'' tools h) = Some shown \<and>
            mset shown = mset ts \<and>
            sorted_wrt (\<lambda>a b. call_count b \<le> call_count a) shown \<and>
            (\<forall>k. filter (\<lambda>t. call_count t = k) shown = filter (\<lambda>t. call_count t = k) ts)) \<and>
         (\<exists>shown. rendered (updateToolsGrid localeCompare ''name'' tools h) = Some shown \<and>
            mset shown = mset ts \<and>
            sorted_wrt (\<lambda>a b. localeCompare (name a) (name b) \<le> 0) shown \<and>
            (\<forall>n. filter (\<lambda>t. localeCompare n (name t) = 0) shown =
                 filter (\<lambda>t. localeCompare n (name t) = 0) ts)) \<and>
         (\<exists>shown. rendered (updateToolsGrid localeCompare ''success'' tools h) = Some shown \<and>
            mset shown = mset ts \<and>
            sorted_wrt (\<lambda>a b. success_rate b \<le> success_rate a) shown \<and>
            (\<forall>k. filter (\<lambda>t. success_rate t = k) shown =
                 filter (\<lambda>t. success_rate t = k) ts)) \<and>
         (\<forall>tb ta. name tb = ''b'' \<and> call_count tb = 5 \<and> name ta = ''a'' \<and> call_count ta = 10 \<longrightarrow>
            rendered (updateToolsGrid localeCompare ''calls'' 0 (tools_store [tb, ta])) =
              Some [ta, tb])"
proof -
  let ?calls = "\<lambda>a b. call_count b - call_count a"
  let ?names = "\<lambda>a b. localeCompare (name a) (name b)"
  let ?success = "\<lambda>a b. success_rate b - success_rate a"
  have calls: "rendered (updateToolsGrid localeCompare ''calls'' tools h) =
                 Some (js_sort ?calls ts)"
    and names: "rendered (updateToolsGrid localeCompare ''name'' tools h) =
                 Some (js_sort ?names ts)"
    and success: "rendered (updateToolsGrid localeCompare ''success'' tools h) =
                 Some (js_sort ?success ts)"
    using assms(1) by (simp_all add: updateToolsGrid_rendered)
  have "sorted_wrt (\<lambda>a b. call_count b \<le> call_count a) (js_sort ?calls ts)"
    using sorted_js_sort [OF consistent_by_calls, of ts] by simp
  moreover have "filter (\<lambda>t. call_count t = k) (js_sort ?calls ts) =
                 filter (\<lambda>t. call_count t = k) ts" for k
    by (rule filter_js_sort) simp
  moreover have "sorted_wrt (\<lambda>a b. localeCompare (name a) (name b) \<le> 0) (js_sort ?names ts)"
    using sorted_js_sort [OF consistent_by_name [OF assms(2)], of ts] by simp
  moreover have "filter (\<lambda>t. localeCompare n (name t) = 0) (js_sort ?names ts) =
                 filter (\<lambda>t. localeCompare n (name t) = 0) ts" for n
    by (rule filter_js_sort) (rule equivalent_names [OF assms(2)])
  moreover have "sorted_wrt (\<lambda>a b. success_rate b \<le> success_rate a) (js_sort ?success ts)"
    using sorted_js_sort [OF consistent_by_success, of ts] by simp
  moreover have "filter (\<lambda>t. success_rate t = k) (js_sort ?success ts) =
                 filter (\<lambda>t. success_rate t = k) ts" for k
    by (rule filter_js_sort) simp
  moreover have "rendered (updateToolsGrid localeCompare ''calls'' 0 (tools_store [tb, ta])) =
                   Some [ta, tb]"
    if "name tb = ''b'' \<and> call_count tb = 5 \<and> name ta = ''a'' \<and> call_count ta = 10"
    for tb ta
    using that
    by (simp add: updateToolsGrid_rendered [of _ _ "[tb, ta]"] tools_store_def)
  ultimately show ?thesis
    unfolding calls names success by (simp add: mset_js_sort)
qed

text \<open>
  The theorem for a host that collates without regard to case: sorting the two mock
  tools by "calls" and the example of the claim.
\<close>

theorem tools_sort_stable_by_key_witness:
  "cells (tools_store MockData_tools) 0 = Some MockData_tools \<and>
   consistent_comparator caseless_collation \<and>
   name tool_b = ''b'' \<and> call_count tool_b = 5 \<and>
   name tool_a = ''a'' \<and> call_count tool_a = 10 \<and>
   rendered (updateToolsGrid caseless_collation ''calls'' 0 (tools_store [tool_b, tool_a])) =
     Some [tool_a, tool_b] \<and>
   (\<exists>shown. rendered (updateToolsGrid caseless_collation ''name'' 0
                      (tools_store MockData_tools)) = Some shown \<and>
      mset shown = mset MockData_tools \<and>
      sorted_wrt (\<lambda>a b. caseless_collation (name a) (name b) \<le> 0) shown)"
proof -
  have stored: "cells (tools_store MockData_tools) 0 = Some MockData_tools"
    by (simp add: tools_store_def)
  have fields: "name tool_b = ''b'' \<and> call_count tool_b = 5 \<and>
                name tool_a = ''a'' \<and> call_count tool_a = 10"
    by (simp add: tool_a_def tool_b_def)
  show ?thesis
    using tools_sort_stable_by_key [OF stored consistent_caseless_collation]
          stored consistent_caseless_collation fields
    by blast
qed

text \<open>
  Claim C5 as stated asks for names in lexicographic order. Where the host collates
  without regard to case, the tools named "B" and "a" come out as "a" then "B", and
  "a" is not below "B" in the lexicographic order of the character codes.
\<close>

theorem tools_sort_by_name_not_lexicographic:
  "consistent_comparator caseless_collation \<and>
   rendered (updateToolsGrid caseless_collation ''name'' 0
              (tools_store [tool_upper_B, tool_a])) = Some [tool_a, tool_upper_B] \<and>
   name tool_a = ''a'' \<and> name tool_upper_B = ''B'' \<and>
   \<not> sorted_wrt (\<lambda>a b. name a \<le> name b) [tool_a, tool_upper_B]"
proof -
  have "js_sort (\<lambda>a b. caseless_collation (name a) (name b)) [tool_upper_B, tool_a] =
          [tool_a, tool_upper_B]"
    by code_simp
  then have "rendered (updateToolsGrid caseless_collation ''name'' 0
                (tools_store [tool_upper_B, tool_a])) = Some [tool_a, tool_upper_B]"
    by (simp add: updateToolsGrid_rendered [of _ _ "[tool_upper_B, tool_a]"] tools_store_def)
  moreover have "\<not> sorted_wrt (\<lambda>a b. name a \<le> name b) [tool_a, tool_upper_B]"
    by (simp add: tool_a_def tool_upper_B_def)
  ultimately show ?thesis
    using consistent_caseless_collation by (simp add: tool_a_def tool_upper_B_def)
qed

subsection \<open>The input arrays are left alone\<close>

lemma updateToolsGrid_result:
  assumes "cells h tools = Some ts"
  shows "updateToolsGrid localeCompare sortBy tools h =
           Inr (next_ref h,
                h\<lparr>cells := (cells h)(next_ref h \<mapsto>
                     (if sortBy = ''calls'' then
                        js_sort (\<lambda>a b. call_count b - call_count a) ts
                      else if sortBy = ''name'' then
                        js_sort (\<lambda>a b. localeCompare (name a) (name b)) ts
                      else if sortBy = ''success'' then
                        js_sort (\<lambda>a b. success_rate b - success_rate a) ts
                      else ts)),
                  next_ref := Suc (next_ref h)\<rparr>)"
  using assms
  by (auto simp: updateToolsGrid_def array_spread_result array_sort_result)

lemma updateConnectionsTable_result:
  assumes "cells h connections = Some conns"
  shows "updateConnectionsTable flt connections h =
           (if flt = ''all'' then Inr (connections, h)
            else Inr (next_ref h,
                      h\<lparr>cells := (cells h)(next_ref h \<mapsto> filter (\<lambda>conn. status conn = flt) conns),
                        next_ref := Suc (next_ref h)\<rparr>))"
  using assms by (simp add: updateConnectionsTable_def array_filter_result)

lemma updateLogsContainer_result:
  assumes "cells h logs = Some ls"
  shows "updateLogsContainer toLowerCase search lvl logs h =
           (if lvl = ''all'' \<and> toLowerCase search = [] then Inr (logs, h)
            else if lvl = ''all'' \<or> toLowerCase search = [] then
              Inr (next_ref h,
                   h\<lparr>cells := (cells h)(next_ref h \<mapsto>
                        (if toLowerCase search = [] then filter (\<lambda>log. level log = lvl) ls
                         else filter (\<lambda>log. string_includes (toLowerCase (message log))
                                              (toLowerCase search)) ls)),
                     next_ref := Suc (next_ref h)\<rparr>)
            else
              Inr (Suc (next_ref h),
                   h\<lparr>cells := (cells h)
                        (next_ref h \<mapsto> filter (\<lambda>log. level log = lvl) ls,
                         Suc (next_ref h) \<mapsto>
                           filter (\<lambda>log. string_includes (toLowerCase (message log))
                                           (toLowerCase search))
                             (filter (\<lambda>log. level log = lvl) ls)),
                     next_ref := Suc (Suc (next_ref h))\<rparr>))"
  using assms
  by (cases "toLowerCase search = []")
     (simp_all add: updateLogsContainer_def array_filter_result Let_def)

text \<open>
  Claim C8, as the code has it. In a store where every array was allocated, each of the
  three functions leaves every array of the store as it was, the input among them. The
  tools sort always renders an array that did not exist before the call. The
  connections filter renders such a new array when a status is selected, and the input
  array itself when the filter is "all"; the logs filter renders a new array when a level
  is selected or the search term, which is the search text in lower case, is not empty,
  and the input array itself otherwise. Where the host's \<^verbatim>\<open>toLowerCase\<close> gives the
  empty string for the empty search text only, that is: when a level is selected or the
  search text is not empty. In the two cases where the input array is rendered the store
  is unchanged altogether.
\<close>

theorem pipelines_leave_input_unchanged:
  assumes "heap_ok ht" and "cells ht tools = Some ts"
    and "heap_ok hc" and "cells hc connections = Some conns"
    and "heap_ok hl" and "cells hl logs = Some ls"
  shows "(\<exists>r h'. updateToolsGrid localeCompare sortBy tools ht = Inr (r, h') \<and>
            cells h' tools = Some ts \<and>
            (\<forall>q. cells ht q \<noteq> None \<longrightarrow> cells h' q = cells ht q) \<and>
            r \<noteq> tools \<and> cells ht r = None) \<and>
         (\<exists>r h'. updateConnectionsTable flt connections hc = Inr (r, h') \<and>
            cells h' connections = Some conns \<and>
            (\<forall>q. cells hc q \<noteq> None \<longrightarrow> cells h' q = cells hc q) \<and>
            (if flt = ''all'' then r = connections \<and> h' = hc
             else r \<noteq> connections \<and> cells hc r = None)) \<and>
         (\<exists>r h'. updateLogsContainer toLowerCase search lvl logs hl = Inr (r, h') \<and>
            cells h' logs = Some ls \<and>
            (\<forall>q. cells hl q \<noteq> None \<longrightarrow> cells h' q = cells hl q) \<and>
            (if lvl = ''all'' \<and> toLowerCase search = [] then r = logs \<and> h' = hl
             else r \<noteq> logs \<and> cells hl r = None) \<and>
            ((toLowerCase search = []) = (search = []) \<longrightarrow>
               (if lvl = ''all'' \<and> search = [] then r = logs \<and> h' = hl
                else r \<noteq> logs \<and> cells hl r = None)))"
proof -
  have fresh_t: "cells ht (next_ref ht) = None" and below_t: "tools < next_ref ht"
    using assms(1,2) by (auto simp: heap_ok_def)
  have tools_part:
    "\<exists>r h'. updateToolsGrid localeCompare sortBy tools ht = Inr (r, h') \<and>
        cells h' tools = Some ts \<and>
        (\<forall>q. cells ht q \<noteq> None \<longrightarrow> cells h' q = cells ht q) \<and>
        r \<noteq> tools \<and> cells ht r = None"
    using fresh_t below_t assms(2)
    by (auto simp: updateToolsGrid_result [OF assms(2)])
  have fresh_c: "cells hc (next_ref hc) = None" and below_c: "connections < next_ref hc"
    using assms(3,4) by (auto simp: heap_ok_def)
  have connections_part:
    "\<exists>r h'. updateConnectionsTable flt connections hc = Inr (r, h') \<and>
        cells h' connections = Some conns \<and>
        (\<forall>q. cells hc q \<noteq> None \<longrightarrow> cells h' q = cells hc q) \<and>
        (if flt = ''all'' then r = connections \<and> h' = hc
         else r \<noteq> connections \<and> cells hc r = None)"
    using fresh_c below_c assms(4)
    by (auto simp: updateConnectionsTable_result [OF assms(4)])
  have fresh_l: "cells hl (next_ref hl) = None" "cells hl (Suc (next_ref hl)) = None"
    and below_l: "logs < next_ref hl"
    using assms(5,6) by (auto simp: heap_ok_def)
  have logs_part:
    "\<exists>r h'. updateLogsContainer toLowerCase search lvl logs hl = Inr (r, h') \<and>
        cells h' logs = Some ls \<and>
        (\<forall>q. cells hl q \<noteq> None \<longrightarrow> cells h' q = cells hl q) \<and>
        (if lvl = ''all'' \<and> toLowerCase search = [] then r = logs \<and> h' = hl
         else r \<noteq> logs \<and> cells hl r = None) \<and>
        ((toLowerCase search = []) = (search = []) \<longrightarrow>
           (if lvl = ''all'' \<and> search = [] then r = logs \<and> h' = hl
            else r \<noteq> logs \<and> cells hl r = None))"
    using fresh_l below_l assms(6)
    by (auto simp: updateLogsContainer_result [OF assms(6)])
  from tools_part connections_part logs_part show ?thesis
    by blast
qed

text \<open>
  The theorem over the sample data: the status filter "connected" renders a new array
  and the sample connections stay in place.
\<close>

theorem pipelines_leave_input_unchanged_witness:
  "heap_ok (tools_store MockData_tools) \<and>
   cells (tools_store MockData_tools) 0 = Some MockData_tools \<and>
   heap_ok connections_store \<and> cells connections_store 0 = Some MockData_connections \<and>
   heap_ok logs_store \<and> cells logs_store 0 = Some MockData_logs \<and>
   (\<exists>r h'. updateConnectionsTable ''connected'' 0 connections_store = Inr (r, h') \<and>
      cells h' 0 = Some MockData_connections \<and> r \<noteq> 0 \<and> cells connections_store r = None) \<and>
   (\<exists>r h'. updateToolsGrid caseless_collation ''calls'' 0 (tools_store MockData_tools) =
              Inr (r, h') \<and>
      cells h' 0 = Some MockData_tools \<and> r \<noteq> 0) \<and>
   (\<exists>r h'. updateLogsContainer ascii_toLowerCase ''response'' ''WARNING'' 0 logs_store =
              Inr (r, h') \<and>
      cells h' 0 = Some MockData_logs \<and> r \<noteq> 0)"
proof -
  have t: "cells (tools_store MockData_tools) 0 = Some MockData_tools"
    by (simp add: tools_store_def)
  have c: "cells connections_store 0 = Some MockData_connections"
    by (simp add: connections_store_def)
  have l: "cells logs_store 0 = Some MockData_logs"
    by (simp add: logs_store_def)
  have differ: "''connected'' \<noteq> ''all''"
    "\<not> (''WARNING'' = ''all'' \<and> ascii_toLowerCase ''response'' = [])"
    by (simp_all add: ascii_toLowerCase_def)
  show ?thesis
    using pipelines_leave_input_unchanged
            [OF heap_ok_tools_store t heap_ok_connections_store c heap_ok_logs_store l,
             of caseless_collation "''calls''" "''connected''" ascii_toLowerCase
                "''response''" "''WARNING''"]
          heap_ok_tools_store [of MockData_tools] heap_ok_connections_store
          heap_ok_logs_store t c l differ
    by (simp only: if_False simp_thms) blast
qed

text \<open>
  Claim C8 as stated asks for a new sequence in every filter state. With the filter
  "all" the connections step hands back reference 0, the array it was given, which is in
  the store before the call, and the logs step does the same for level "all" and an
  empty search text.
\<close>

theorem pipelines_may_return_the_input_array:
  "cells connections_store 0 = Some MockData_connections \<and>
   updateConnectionsTable ''all'' 0 connections_store = Inr (0, connections_store) \<and>
   cells logs_store 0 = Some MockData_logs \<and>
   updateLogsContainer ascii_toLowerCase [] ''all'' 0 logs_store = Inr (0, logs_store)"
  by (simp add: updateConnectionsTable_def updateLogsContainer_def ascii_toLowerCase_def
        connections_store_def logs_store_def)

end
